theory Spec2Isabelle
  imports
    Complex_Main
    "HOL-Library.Sublist"
    "HOL-Library.Char_ord"
    "HOL-Library.List_Lexorder"
    "HOL-Library.Product_Lexorder"
begin

section \<open>Data model\<close>

text \<open>
  The dashboard (\<^verbatim>\<open>app2.py\<close>) keeps one pandas data frame \<^verbatim>\<open>df\<close>, read from a CSV file
  at import time and never written to by a callback. A row of that frame is a record
  with the columns the callbacks filter, group and average on. A missing cell (NaN) is
  \<open>None\<close>. Numbers are rationals: comparisons on them are exact, and a mean is the
  exact quotient, so the rounding of the float arithmetic is left out of the model.

  The column \<^verbatim>\<open>country_code\<close> is never null in a frame that reaches a callback: line 43,
  \<^verbatim>\<open>df['country_code'].apply(clean_country_name)\<close>, evaluates \<^verbatim>\<open>code.upper()\<close> on
  every cell and raises on a NaN, which is a float. The column \<^verbatim>\<open>country_name\<close> is
  that derived column.
\<close>

datatype error = IndexError | KeyError

record product =
  country_code :: string
  nutrition_grade :: "string option"
  nova_group :: "rat option"
  fat_100g :: "rat option"
  sugars_100g :: "rat option"
  proteins_100g :: "rat option"
  carbohydrates_100g :: "rat option"
  salt_100g :: "rat option"

section \<open>Country display names\<close>

text \<open>\<^verbatim>\<open>str.upper\<close> on the ASCII letters; every other character is kept.\<close>

definition upper_char :: "char \<Rightarrow> char" where
  "upper_char c =
     (if CHR ''a'' \<le> c \<and> c \<le> CHR ''z'' then char_of (of_char c - (32::nat)) else c)"

definition upper :: "string \<Rightarrow> string" where
  "upper s = map upper_char s"

definition country_map :: "(string \<times> string) list" where
  "country_map =
     [(''us'', ''United States''), (''fr'', ''France''), (''uk'', ''United Kingdom''),
      (''de'', ''Germany''), (''es'', ''Spain''), (''it'', ''Italy''), (''cn'', ''China''),
      (''jp'', ''Japan''), (''in'', ''India''), (''br'', ''Brazil''), (''au'', ''Australia'')]"

text \<open>\<^verbatim>\<open>country_map.get(code, code.upper())\<close>\<close>

definition clean_country_name :: "string \<Rightarrow> string" where
  "clean_country_name code =
     (case map_of country_map code of Some name \<Rightarrow> name | None \<Rightarrow> upper code)"

definition country_name :: "product \<Rightarrow> string" where
  "country_name r = clean_country_name (country_code r)"

section \<open>Facet filter\<close>

text \<open>
  The element-wise column tests of pandas. \<^verbatim>\<open>Series.isin\<close> and the comparisons
  \<^verbatim>\<open>>=\<close>, \<^verbatim>\<open><=\<close> are false on a NaN cell.
\<close>

definition isin :: "'a option \<Rightarrow> 'a list \<Rightarrow> bool" where
  "isin cell vals = (case cell of None \<Rightarrow> False | Some x \<Rightarrow> x \<in> set vals)"

definition ge :: "rat option \<Rightarrow> rat \<Rightarrow> bool" where
  "ge cell b = (case cell of None \<Rightarrow> False | Some x \<Rightarrow> b \<le> x)"

definition le :: "rat option \<Rightarrow> rat \<Rightarrow> bool" where
  "le cell b = (case cell of None \<Rightarrow> False | Some x \<Rightarrow> x \<le> b)"

text \<open>\<^verbatim>\<open>xs[i]\<close> of a Python list, for an index \<open>i \<ge> 0\<close>.\<close>

definition getitem :: "'a list \<Rightarrow> nat \<Rightarrow> error + 'a" where
  "getitem xs i = (if i < length xs then Inr (xs ! i) else Inl IndexError)"

text \<open>
  The row mask of \<^verbatim>\<open>update_macronutrient_chart\<close> (lines 219-222) for the bounds
  \<^verbatim>\<open>nova_range[0]\<close> and \<^verbatim>\<open>nova_range[1]\<close>.
\<close>

definition macronutrient_mask ::
    "string list \<Rightarrow> string list \<Rightarrow> rat \<Rightarrow> rat \<Rightarrow> product \<Rightarrow> bool" where
  "macronutrient_mask selected_countries selected_grades lo hi r =
     (country_code r \<in> set selected_countries \<and>
      isin (nutrition_grade r) selected_grades \<and>
      ge (nova_group r) lo \<and>
      le (nova_group r) hi)"

text \<open>
  \<^verbatim>\<open>filtered_df\<close> of \<^verbatim>\<open>update_macronutrient_chart\<close>: the rows of \<^verbatim>\<open>df\<close> under the mask,
  in the order of \<^verbatim>\<open>df\<close>. Reading a bound that the range list does not have raises
  \<^verbatim>\<open>IndexError\<close>.
\<close>

definition macronutrient_filtered_df ::
    "product list \<Rightarrow> string list \<Rightarrow> string list \<Rightarrow> rat list \<Rightarrow> error + product list" where
  "macronutrient_filtered_df df selected_countries selected_grades nova_range =
     (case getitem nova_range 0 of
        Inl e \<Rightarrow> Inl e
      | Inr lo \<Rightarrow>
         (case getitem nova_range 1 of
            Inl e \<Rightarrow> Inl e
          | Inr hi \<Rightarrow>
              Inr (filter (macronutrient_mask selected_countries selected_grades lo hi) df)))"

text \<open>\<^verbatim>\<open>filtered_df\<close> of \<^verbatim>\<open>update_nutrition_grade_chart\<close> (lines 182-184).\<close>

definition nutrition_grade_filtered_df ::
    "product list \<Rightarrow> string list \<Rightarrow> rat list \<Rightarrow> error + product list" where
  "nutrition_grade_filtered_df df selected_countries nova_range =
     (case getitem nova_range 0 of
        Inl e \<Rightarrow> Inl e
      | Inr lo \<Rightarrow>
         (case getitem nova_range 1 of
            Inl e \<Rightarrow> Inl e
          | Inr hi \<Rightarrow>
              Inr (filter (\<lambda>r. country_code r \<in> set selected_countries \<and>
                                ge (nova_group r) lo \<and> le (nova_group r) hi) df)))"

text \<open>\<^verbatim>\<open>filtered_df\<close> of \<^verbatim>\<open>update_processing_by_country_chart\<close> (lines 645-646).\<close>

definition processing_filtered_df ::
    "product list \<Rightarrow> string list \<Rightarrow> string list \<Rightarrow> product list" where
  "processing_filtered_df df selected_countries selected_grades =
     filter (\<lambda>r. country_code r \<in> set selected_countries \<and>
                  isin (nutrition_grade r) selected_grades) df"

text \<open>The three rows of the end-to-end scenario of the specification.\<close>

definition scenario_df :: "product list" where
  "scenario_df =
     [\<lparr>country_code = ''us'', nutrition_grade = Some ''A'', nova_group = Some 1,
        fat_100g = None, sugars_100g = Some 2, proteins_100g = None,
        carbohydrates_100g = None, salt_100g = None\<rparr>,
      \<lparr>country_code = ''us'', nutrition_grade = Some ''B'', nova_group = Some 2,
        fat_100g = None, sugars_100g = Some 4, proteins_100g = None,
        carbohydrates_100g = None, salt_100g = None\<rparr>,
      \<lparr>country_code = ''fr'', nutrition_grade = Some ''A'', nova_group = Some 1,
        fat_100g = None, sugars_100g = None, proteins_100g = None,
        carbohydrates_100g = None, salt_100g = None\<rparr>]"

section \<open>Aggregator\<close>

text \<open>The non-null cells of a column, in order.\<close>

fun dropna :: "'a option list \<Rightarrow> 'a list" where
  "dropna [] = []"
| "dropna (None # cells) = dropna cells"
| "dropna (Some x # cells) = x # dropna cells"

text \<open>
  \<^verbatim>\<open>DataFrame.groupby(key)\<close> with the defaults of pandas, \<^verbatim>\<open>sort=True\<close> and
  \<^verbatim>\<open>dropna=True\<close>: the groups come in ascending order of their keys, a row whose key
  is null belongs to no group, and the rows of a group keep the order of the frame.
  No call of \<^verbatim>\<open>groupby\<close> in the source passes \<^verbatim>\<open>sort\<close> or \<^verbatim>\<open>dropna\<close>.
\<close>

definition groupby :: "('r \<Rightarrow> ('k::linorder) option) \<Rightarrow> 'r list \<Rightarrow> ('k \<times> 'r list) list" where
  "groupby key df =
     map (\<lambda>k. (k, filter (\<lambda>r. key r = Some k) df)) (sort (remdups (dropna (map key df))))"

text \<open>
  The \<^verbatim>\<open>'mean'\<close> aggregation (\<^verbatim>\<open>skipna=True\<close>): the mean of the non-null cells, and NaN
  when there is none.
\<close>

definition mean :: "rat option list \<Rightarrow> rat option" where
  "mean cells =
     (let xs = dropna cells
      in if xs = [] then None else Some (sum_list xs / of_nat (length xs)))"

text \<open>
  A wide frame as \<^verbatim>\<open>pd.melt\<close> receives it: the identifier column (\<^verbatim>\<open>Country\<close>,
  \<^verbatim>\<open>country_name\<close>) and the labelled value columns, one cell per row each.
\<close>

record ('k, 'c) frame =
  id_col :: "'k list"
  value_cols :: "('c \<times> rat option list) list"

text \<open>
  The aggregation dictionary of lines 225-231 with the column names of line 234: each
  displayed metric and the source column it averages.
\<close>

definition macro_metrics :: "(string \<times> (product \<Rightarrow> rat option)) list" where
  "macro_metrics =
     [(''Fat'', fat_100g), (''Sugars'', sugars_100g), (''Proteins'', proteins_100g),
      (''Carbs'', carbohydrates_100g), (''Salt'', salt_100g)]"

text \<open>\<^verbatim>\<open>macro_avg\<close> of \<^verbatim>\<open>update_macronutrient_chart\<close> (lines 225-234).\<close>

definition macro_avg :: "product list \<Rightarrow> (string, string) frame" where
  "macro_avg filtered_df =
     (let groups = groupby (\<lambda>r. Some (country_name r)) filtered_df
      in \<lparr>id_col = map fst groups,
          value_cols =
            map (\<lambda>(name, col). (name, map (\<lambda>(k, rows). mean (map col rows)) groups))
              macro_metrics\<rparr>)"

text \<open>
  \<^verbatim>\<open>grade_counts\<close> of \<^verbatim>\<open>update_nutrition_grade_chart\<close> (line 187): the size of every
  (country name, grade) group, as rows (country name, grade, count).
\<close>

definition grade_counts :: "product list \<Rightarrow> (string \<times> string \<times> nat) list" where
  "grade_counts filtered_df =
     map (\<lambda>((c, g), rows). (c, g, length rows))
       (groupby (\<lambda>r. map_option (Pair (country_name r)) (nutrition_grade r)) filtered_df)"

section \<open>Reshaper\<close>

text \<open>The distinct elements of a list in the order of their first occurrence.\<close>

definition uniq :: "'a list \<Rightarrow> 'a list" where
  "uniq xs = rev (remdups (rev xs))"

definition column :: "('k, 'c) frame \<Rightarrow> 'c \<Rightarrow> rat option list" where
  "column fr v = (case map_of (value_cols fr) v of Some cells \<Rightarrow> cells | None \<Rightarrow> [])"

text \<open>
  \<^verbatim>\<open>pd.melt(frame, id_vars=[identifier], value_vars=value_vars)\<close>, as rows
  (identifier, variable, value). pandas raises \<^verbatim>\<open>KeyError\<close> for a label that is no
  column of the frame, keeps the first occurrence of a repeated label, and stacks the
  selected columns one after the other, the identifier column repeated beside each.
\<close>

definition melt :: "('k, 'c) frame \<Rightarrow> 'c list \<Rightarrow> error + ('k \<times> 'c \<times> rat option) list" where
  "melt fr value_vars =
     (if \<not> set value_vars \<subseteq> fst ` set (value_cols fr) then Inl KeyError
      else Inr (concat (map (\<lambda>v. map (\<lambda>(k, x). (k, v, x)) (zip (id_col fr) (column fr v)))
                  (uniq value_vars))))"


section \<open>Percentage by group\<close>

text \<open>\<^verbatim>\<open>filtered_df.groupby('country_name').size()\<close> (line 649).\<close>

definition country_totals :: "product list \<Rightarrow> (string \<times> nat) list" where
  "country_totals filtered_df =
     map (\<lambda>(k, rows). (k, length rows)) (groupby (\<lambda>r. Some (country_name r)) filtered_df)"

text \<open>\<^verbatim>\<open>filtered_df.groupby(['country_name', 'nova_group']).size()\<close> (line 650).\<close>

definition nova_sizes :: "product list \<Rightarrow> ((string \<times> rat) \<times> nat) list" where
  "nova_sizes filtered_df =
     map (\<lambda>(k, rows). (k, length rows))
       (groupby (\<lambda>r. map_option (Pair (country_name r)) (nova_group r)) filtered_df)"

text \<open>
  \<^verbatim>\<open>Series.unstack()\<close> of a series indexed by pairs: one row per first component, one
  column per second component, both ascending, and NaN where the pair is no key of the
  series.
\<close>

definition unstack :: "((('a::linorder) \<times> ('b::linorder)) \<times> nat) list \<Rightarrow> ('a, 'b) frame" where
  "unstack sizes =
     (let rows = sort (remdups (map (fst \<circ> fst) sizes));
          labels = sort (remdups (map (snd \<circ> fst) sizes))
      in \<lparr>id_col = rows,
          value_cols =
            map (\<lambda>l. (l, map (\<lambda>k. map_option of_nat (map_of sizes (k, l))) rows)) labels\<rparr>)"

definition fillna :: "rat \<Rightarrow> ('k, 'c) frame \<Rightarrow> ('k, 'c) frame" where
  "fillna v fr =
     fr\<lparr>value_cols :=
          map (\<lambda>(l, cells). (l, map (\<lambda>x. case x of None \<Rightarrow> Some v | Some y \<Rightarrow> Some y) cells))
            (value_cols fr)\<rparr>"

text \<open>
  One cell of \<^verbatim>\<open>nova_by_country[col] / country_totals * 100\<close>. The two series are
  aligned on the country name, and the cell is NaN where either has none. A total is
  the size of a group and so never zero; a zero divisor, whose float quotient is
  infinite or NaN, is left as NaN here.
\<close>

definition percent_cell :: "rat option \<Rightarrow> nat option \<Rightarrow> rat option" where
  "percent_cell x group_total =
     (case (x, group_total) of
        (Some a, Some t) \<Rightarrow> if t = 0 then None else Some (a / of_nat t * 100)
      | _ \<Rightarrow> None)"

text \<open>The loop of lines 653-654 over the columns of the frame.\<close>

definition percent_of_totals :: "('k, 'c) frame \<Rightarrow> ('k \<times> nat) list \<Rightarrow> ('k, 'c) frame" where
  "percent_of_totals fr totals =
     fr\<lparr>value_cols :=
          map (\<lambda>(l, cells).
                 (l, map (\<lambda>(k, x). percent_cell x (map_of totals k)) (zip (id_col fr) cells)))
            (value_cols fr)\<rparr>"

text \<open>\<^verbatim>\<open>nova_by_country\<close> of \<^verbatim>\<open>update_processing_by_country_chart\<close> (lines 649-656).\<close>

definition nova_by_country :: "product list \<Rightarrow> (string, rat) frame" where
  "nova_by_country filtered_df =
     percent_of_totals (fillna 0 (unstack (nova_sizes filtered_df))) (country_totals filtered_df)"

text \<open>\<^verbatim>\<open>melted_df\<close> of \<^verbatim>\<open>update_processing_by_country_chart\<close> (lines 645-663).\<close>

definition update_processing_by_country_chart ::
    "product list \<Rightarrow> string list \<Rightarrow> string list \<Rightarrow> error + (string \<times> rat \<times> rat option) list" where
  "update_processing_by_country_chart df selected_countries selected_grades =
     (let fr = nova_by_country (processing_filtered_df df selected_countries selected_grades)
      in melt fr (sort (map fst (value_cols fr))))"

text \<open>Three German products, two of NOVA group 1 and one of NOVA group 3.\<close>

definition de_product :: "rat \<Rightarrow> product" where
  "de_product n =
     \<lparr>country_code = ''de'', nutrition_grade = Some ''A'', nova_group = Some n,
      fat_100g = None, sugars_100g = None, proteins_100g = None,
      carbohydrates_100g = None, salt_100g = None\<rparr>"

definition de_df :: "product list" where
  "de_df = [de_product 1, de_product 1, de_product 3]"

text \<open>The three German products and one French product of NOVA group 2.\<close>

definition de_fr_df :: "product list" where
  "de_fr_df = de_df @ [(de_product 2)\<lparr>country_code := ''fr''\<rparr>]"

text \<open>
  A German product that has no NOVA group and a French product of NOVA group 2.
\<close>

definition gap_df :: "product list" where
  "gap_df = [(de_product 1)\<lparr>nova_group := None\<rparr>, (de_product 2)\<lparr>country_code := ''fr''\<rparr>]"

text \<open>Every value column of a frame has one cell per row.\<close>

definition rectangular :: "('k, 'c) frame \<Rightarrow> bool" where
  "rectangular fr = list_all (\<lambda>(l, cells). length cells = length (id_col fr)) (value_cols fr)"

text \<open>A wide frame of two aggregate rows and two metrics, one cell null.\<close>

definition two_row_frame :: "(string, string) frame" where
  "two_row_frame =
     \<lparr>id_col = [''Row1'', ''Row2''],
      value_cols = [(''Fat'', [Some 1, Some 2]), (''Sugar'', [Some 3, None])]\<rparr>"

text \<open>A frame with a product that has no grade and a product that has no NOVA group.\<close>

definition null_df :: "product list" where
  "null_df =
     [de_product 1,
      (de_product 2)\<lparr>nutrition_grade := None\<rparr>,
      (de_product 3)\<lparr>nova_group := None\<rparr>]"

section \<open>The mockup variant\<close>

text \<open>
  \<^verbatim>\<open>app.py\<close> is the mockup variant of the dashboard. Its two chart callbacks build a bar
  trace from literals; a figure is modelled by the data of that trace.
\<close>

datatype datum = Str string | Num int

record bar_trace =
  trace_x :: "datum list"
  trace_y :: "datum list"
  orientation :: "string option"
  marker_color :: "string list"

text \<open>The colour scheme of \<^verbatim>\<open>app.py\<close> (lines 9-17).\<close>

definition colors :: "(string \<times> string) list" where
  "colors =
     [(''background'', ''#0A1022''), (''text'', ''#FFFFFF''), (''accent1'', ''#5D6CDF''),
      (''accent2'', ''#46C9E5''), (''accent3'', ''#FFC857''), (''panel'', ''#15213B''),
      (''grid'', ''#1E2A45'')]"

text \<open>\<^verbatim>\<open>d[k]\<close> of a Python dictionary.\<close>

definition subscript :: "('k \<times> 'v) list \<Rightarrow> 'k \<Rightarrow> error + 'v" where
  "subscript d k = (case map_of d k of None \<Rightarrow> Inl KeyError | Some v \<Rightarrow> Inr v)"

text \<open>\<^verbatim>\<open>update_nutrition_grade_chart\<close> of \<^verbatim>\<open>app.py\<close> (lines 234-278).\<close>

definition update_nutrition_grade_chart_mockup ::
    "string list \<Rightarrow> string \<Rightarrow> rat list \<Rightarrow> error + bar_trace" where
  "update_nutrition_grade_chart_mockup selected_countries selected_category nova_range =
     (let grade_data = [(''A'', 32), (''B'', 45), (''C'', 28), (''D'', 18), (''E'', 7)]
      in case (subscript colors ''accent1'', subscript colors ''accent2'',
               subscript colors ''accent3'') of
           (Inr accent1, Inr accent2, Inr accent3) \<Rightarrow>
             Inr \<lparr>trace_x = map (Num \<circ> snd) grade_data,
                  trace_y = map (Str \<circ> fst) grade_data,
                  orientation = Some ''h'',
                  marker_color = [accent1, accent2, ''#5ECDA0'', accent3, ''#E15759'']\<rparr>
         | _ \<Rightarrow> Inl KeyError)"

text \<open>\<^verbatim>\<open>update_macronutrient_chart\<close> of \<^verbatim>\<open>app.py\<close> (lines 287-332).\<close>

definition update_macronutrient_chart_mockup ::
    "string list \<Rightarrow> string \<Rightarrow> rat list \<Rightarrow> error + bar_trace" where
  "update_macronutrient_chart_mockup selected_countries selected_category nova_range =
     (let nutrients = [''Protein'', ''Carbs'', ''Fat'', ''Fiber'', ''Sugar'', ''Salt''];
          values = [12, 38, 18, 7, 16, 9]
      in case (subscript colors ''accent2'', subscript colors ''accent1'',
               subscript colors ''accent3'') of
           (Inr accent2, Inr accent1, Inr accent3) \<Rightarrow>
             Inr \<lparr>trace_x = map Str nutrients,
                  trace_y = map Num values,
                  orientation = None,
                  marker_color = [accent2, accent1, accent3, ''#5ECDA0'', ''#E15759'', ''#FF9D5C'']\<rparr>
         | _ \<Rightarrow> Inl KeyError)"

section \<open>Properties of the facet filter\<close>

lemma macronutrient_filtered_df_bounds:
  "macronutrient_filtered_df df cs gs (lo # hi # rest) =
     Inr (filter (macronutrient_mask cs gs lo hi) df)"
  by (simp add: macronutrient_filtered_df_def getitem_def)

lemma nutrition_grade_filtered_df_bounds:
  "nutrition_grade_filtered_df df cs (lo # hi # rest) =
     Inr (filter (\<lambda>r. country_code r \<in> set cs \<and> ge (nova_group r) lo \<and> le (nova_group r) hi) df)"
  by (simp add: nutrition_grade_filtered_df_def getitem_def)

lemma macronutrient_mask_iff:
  "macronutrient_mask cs gs lo hi r \<longleftrightarrow>
     country_code r \<in> set cs \<and>
     (\<exists>g. nutrition_grade r = Some g \<and> g \<in> set gs) \<and>
     (\<exists>n. nova_group r = Some n \<and> lo \<le> n \<and> n \<le> hi)"
  by (auto simp: macronutrient_mask_def isin_def ge_def le_def split: option.splits)

text \<open>
  C5. An empty country selection, or an empty grade selection, selects no row: the
  filtered frame is empty, whatever the data and the other facets are.
\<close>

theorem empty_selection_no_match:
  "macronutrient_filtered_df df [] gs (lo # hi # rest) = Inr []
   \<and> macronutrient_filtered_df df cs [] (lo # hi # rest) = Inr []
   \<and> nutrition_grade_filtered_df df [] (lo # hi # rest) = Inr []
   \<and> processing_filtered_df df [] gs = []
   \<and> processing_filtered_df df cs [] = []"
  by (simp add: macronutrient_filtered_df_bounds nutrition_grade_filtered_df_bounds
      processing_filtered_df_def macronutrient_mask_def isin_def split: option.split)

text \<open>
  C6. Filtering is idempotent and keeps the order of the rows: for every frame and
  every selection whose range list has its two bounds, the filter returns a frame,
  filtering that frame again with the same selection returns it unchanged, and it is a
  subsequence of the frame that was filtered. The frame is a value: the filter returns
  a new list and the argument is as it was.
\<close>

theorem filter_idempotent_order_preserving:
  "\<exists>filtered.
      macronutrient_filtered_df df cs gs (lo # hi # rest) = Inr filtered
      \<and> macronutrient_filtered_df filtered cs gs (lo # hi # rest) = Inr filtered
      \<and> subseq filtered df"
  by (simp add: macronutrient_filtered_df_bounds)

text \<open>
  C7. A row of the frame is in the filtered frame exactly when its country code is
  selected, its grade is present and selected, and its NOVA group is present and lies
  between the two bounds, both included. A row whose grade or NOVA group is null is
  in no filtered frame.
\<close>

theorem filter_conjunction:
  assumes "macronutrient_filtered_df df cs gs (lo # hi # rest) = Inr filtered"
  shows "set filtered \<subseteq> set df
    \<and> (\<forall>r \<in> set df. r \<in> set filtered \<longleftrightarrow>
          country_code r \<in> set cs
          \<and> (\<exists>g. nutrition_grade r = Some g \<and> g \<in> set gs)
          \<and> (\<exists>n. nova_group r = Some n \<and> lo \<le> n \<and> n \<le> hi))
    \<and> (\<forall>r \<in> set df. nutrition_grade r = None \<or> nova_group r = None \<longrightarrow> r \<notin> set filtered)"
proof -
  from assms have eq: "filtered = filter (macronutrient_mask cs gs lo hi) df"
    by (simp add: macronutrient_filtered_df_bounds)
  have "set filtered \<subseteq> set df"
    by (simp add: eq)
  moreover have "\<forall>r \<in> set df. r \<in> set filtered \<longleftrightarrow>
          country_code r \<in> set cs
          \<and> (\<exists>g. nutrition_grade r = Some g \<and> g \<in> set gs)
          \<and> (\<exists>n. nova_group r = Some n \<and> lo \<le> n \<and> n \<le> hi)"
    by (simp add: eq macronutrient_mask_iff)
  moreover have "\<forall>r \<in> set df. nutrition_grade r = None \<or> nova_group r = None \<longrightarrow> r \<notin> set filtered"
    by (auto simp: eq macronutrient_mask_iff)
  ultimately show ?thesis by blast
qed

theorem filter_conjunction_witness:
  "macronutrient_filtered_df null_df [''de''] [''A''] [1, 4] = Inr [de_product 1]
   \<and> de_product 1 \<in> set null_df
   \<and> (de_product 2)\<lparr>nutrition_grade := None\<rparr> \<notin> set [de_product 1]
   \<and> (de_product 3)\<lparr>nova_group := None\<rparr> \<notin> set [de_product 1]"
proof -
  have h: "macronutrient_filtered_df null_df [''de''] [''A''] [1, 4] = Inr [de_product 1]"
    by (simp add: macronutrient_filtered_df_bounds macronutrient_mask_iff null_df_def
        de_product_def)
  have m: "(de_product 2)\<lparr>nutrition_grade := None\<rparr> \<in> set null_df"
          "(de_product 3)\<lparr>nova_group := None\<rparr> \<in> set null_df"
          "de_product 1 \<in> set null_df"
    by (simp_all add: null_df_def)
  from filter_conjunction [OF h] m h show ?thesis
    by (simp add: de_product_def)
qed

text \<open>
  C8 (as the code has it). The filter has no check of the range: for every two bounds
  it returns a frame and never an error, and when the lower bound is above the upper
  bound that frame is empty. The bounds are compared as they are, also outside 1..4.
\<close>

theorem invalid_range_not_rejected:
  "macronutrient_filtered_df df cs gs (lo # hi # rest) =
     Inr (filter (\<lambda>r. country_code r \<in> set cs \<and> isin (nutrition_grade r) gs
                       \<and> ge (nova_group r) lo \<and> le (nova_group r) hi) df)
   \<and> (hi < lo \<longrightarrow> macronutrient_filtered_df df cs gs (lo # hi # rest) = Inr [])"
proof -
  have mask: "macronutrient_mask cs gs lo hi =
      (\<lambda>r. country_code r \<in> set cs \<and> isin (nutrition_grade r) gs
            \<and> ge (nova_group r) lo \<and> le (nova_group r) hi)"
    by (rule ext) (simp add: macronutrient_mask_def)
  have "hi < lo \<Longrightarrow> filter (macronutrient_mask cs gs lo hi) df = []"
    by (auto simp: filter_empty_conv macronutrient_mask_iff)
  then show ?thesis
    by (simp add: macronutrient_filtered_df_bounds mask [symmetric])
qed

theorem invalid_range_not_rejected_witness:
  "(1::rat) < 3
   \<and> macronutrient_filtered_df scenario_df [''us'', ''fr''] [''A'', ''B''] [3, 1] = Inr []"
proof -
  have h: "(1::rat) < 3" by simp
  with invalid_range_not_rejected [of scenario_df "[''us'', ''fr'']" "[''A'', ''B'']" 3 1 "[]"]
  show ?thesis by blast
qed

text \<open>
  The claim C8 fails on the code: a range with its bounds swapped, and a range outside
  1..4, are both filtered with and give a frame, not an error.
\<close>

theorem invalid_range_counterexample:
  "macronutrient_filtered_df scenario_df [''us'', ''fr''] [''A'', ''B''] [3, 1] = Inr []
   \<and> macronutrient_filtered_df scenario_df [''us'', ''fr''] [''A'', ''B''] [0, 9] = Inr scenario_df"
  by (simp add: macronutrient_filtered_df_bounds macronutrient_mask_iff scenario_df_def)

section \<open>Properties of the country display name\<close>

lemma distinct_country_map: "distinct (map fst country_map)"
  by (simp add: country_map_def)

text \<open>
  C9. The display name of a country code is the name that the lookup table gives the
  code, and, for a code that the table does not have, the code in upper case.
\<close>

theorem country_display_name:
  "(\<forall>name. (code, name) \<in> set country_map \<longrightarrow> clean_country_name code = name)
   \<and> (code \<notin> fst ` set country_map \<longrightarrow> clean_country_name code = upper code)"
proof -
  have "clean_country_name code = name" if "(code, name) \<in> set country_map" for name
  proof -
    from that have "map_of country_map code = Some name"
      by (simp add: distinct_country_map)
    then show ?thesis by (simp add: clean_country_name_def)
  qed
  moreover have "clean_country_name code = upper code" if "code \<notin> fst ` set country_map"
  proof -
    from that have "map_of country_map code = None"
      by (simp add: map_of_eq_None_iff)
    then show ?thesis by (simp add: clean_country_name_def)
  qed
  ultimately show ?thesis by blast
qed

theorem country_display_name_witness:
  "(''fr'', ''France'') \<in> set country_map \<and> clean_country_name ''fr'' = ''France''
   \<and> ''xy'' \<notin> fst ` set country_map \<and> clean_country_name ''xy'' = upper ''xy''
   \<and> upper ''xy'' = ''XY''"
proof -
  have a: "(''fr'', ''France'') \<in> set country_map"
    by (simp add: country_map_def)
  have b: "''xy'' \<notin> fst ` set country_map"
    by (simp add: country_map_def)
  have c: "upper ''xy'' = ''XY''"
    by code_simp
  from country_display_name [of "''fr''"] country_display_name [of "''xy''"] a b c
  show ?thesis by blast
qed

section \<open>Properties of the aggregator\<close>

lemma set_dropna: "set (dropna cells) = {x. Some x \<in> set cells}"
  by (induction cells rule: dropna.induct) auto

lemma dropna_map_Some: "dropna (map (\<lambda>r. Some (f r)) df) = map f df"
  by (induction df) simp_all

lemma groupby_keys: "map fst (groupby key df) = sort (remdups (dropna (map key df)))"
  by (simp add: groupby_def comp_def)


lemma id_col_macro_avg: "id_col (macro_avg df) = sort (remdups (map country_name df))"
  by (simp add: macro_avg_def Let_def groupby_keys dropna_map_Some)

lemma grade_counts_keys:
  "map (\<lambda>(c, g, n). (c, g)) (grade_counts df) =
     sort (remdups (dropna (map (\<lambda>r. map_option (Pair (country_name r)) (nutrition_grade r)) df)))"
  by (simp add: grade_counts_def groupby_def comp_def case_prod_beta)

lemma set_dropna_map: "set (dropna (map f xs)) = {y. \<exists>x \<in> set xs. f x = Some y}"
proof (induction xs)
  case Nil
  then show ?case by simp
next
  case (Cons x xs)
  then show ?case by (cases "f x") auto
qed

text \<open>
  C1 (as the code has it). The group keys of an aggregation come in ascending order,
  each once: the country names of \<^verbatim>\<open>macro_avg\<close> are sorted, distinct, and are the
  names of the rows of the filtered frame; the (country name, grade) pairs of
  \<^verbatim>\<open>grade_counts\<close> are sorted lexicographically, distinct, and are the pairs of the
  rows that have a grade.
\<close>

theorem group_keys_sorted:
  "sorted (id_col (macro_avg fdf)) \<and> distinct (id_col (macro_avg fdf))
   \<and> set (id_col (macro_avg fdf)) = country_name ` set fdf
   \<and> sorted (map (\<lambda>(c, g, n). (c, g)) (grade_counts fdf))
   \<and> distinct (map (\<lambda>(c, g, n). (c, g)) (grade_counts fdf))
   \<and> set (map (\<lambda>(c, g, n). (c, g)) (grade_counts fdf)) =
       {(country_name r, g) | r g. r \<in> set fdf \<and> nutrition_grade r = Some g}"
proof -
  have "set (dropna (map (\<lambda>r. map_option (Pair (country_name r)) (nutrition_grade r)) fdf)) =
       {(country_name r, g) | r g. r \<in> set fdf \<and> nutrition_grade r = Some g}"
    unfolding set_dropna_map by auto
  then show ?thesis
    unfolding grade_counts_keys id_col_macro_avg by simp
qed

text \<open>
  The claim C1 fails on the code: in the end-to-end scenario the filtered frame has
  the United States before France, and both aggregations put France first.
\<close>

theorem group_keys_counterexample:
  "macronutrient_filtered_df scenario_df [''us'', ''fr''] [''A'', ''B''] [1, 2] = Inr scenario_df
   \<and> map country_name scenario_df = [''United States'', ''United States'', ''France'']
   \<and> uniq (map country_name scenario_df) = [''United States'', ''France'']
   \<and> id_col (macro_avg scenario_df) = [''France'', ''United States'']
   \<and> map (\<lambda>(c, g, n). (c, g)) (grade_counts scenario_df) = [(''France'', ''A''), (''United States'', ''A''), (''United States'', ''B'')]"
  by code_simp








lemma length_concat_block:
  "\<forall>xs \<in> set xss. length xs = n \<Longrightarrow> length (concat xss) = length xss * n"
  by (induction xss) simp_all

lemma nth_concat_block:
  "\<forall>xs \<in> set xss. length xs = n \<Longrightarrow> j < length xss \<Longrightarrow> i < n \<Longrightarrow>
     concat xss ! (j * n + i) = xss ! j ! i"
proof (induction xss arbitrary: j)
  case Nil
  then show ?case by simp
next
  case (Cons xs xss)
  show ?case
  proof (cases j)
    case 0
    with Cons.prems show ?thesis by (simp add: nth_append)
  next
    case (Suc j')
    with Cons.prems have "concat xss ! (j' * n + i) = xss ! j' ! i"
      by (intro Cons.IH) simp_all
    moreover from Cons.prems have "length xs = n" by simp
    ultimately show ?thesis
      using Suc by (simp add: nth_append add.assoc)
  qed
qed

lemma uniq_distinct: "distinct xs \<Longrightarrow> uniq xs = xs"
  by (simp add: uniq_def distinct_remdups_id)

lemma length_column:
  "rectangular fr \<Longrightarrow> v \<in> fst ` set (value_cols fr) \<Longrightarrow> length (column fr v) = length (id_col fr)"
proof -
  assume r: "rectangular fr" and v: "v \<in> fst ` set (value_cols fr)"
  from v obtain cells where m: "map_of (value_cols fr) v = Some cells"
    by (metis map_of_eq_None_iff not_None_eq)
  then have "(v, cells) \<in> set (value_cols fr)" by (rule map_of_SomeD)
  with r have "length cells = length (id_col fr)"
    by (auto simp: rectangular_def list_all_iff)
  with m show ?thesis by (simp add: column_def)
qed

text \<open>The frame that \<^verbatim>\<open>update_macronutrient_chart\<close> melts has one cell per row in every column.\<close>

lemma rectangular_macro_avg: "rectangular (macro_avg df)"
  by (simp add: rectangular_def macro_avg_def Let_def list_all_iff macro_metrics_def)

text \<open>
  C2 (as the code has it). For a frame and a list of distinct metric names that are
  columns of it, \<^verbatim>\<open>melt\<close> returns exactly one row per (aggregate row, metric) pair,
  ordered first by the metric list and then by the aggregate rows: the row at position
  \<open>j * n + i\<close>, for \<open>n\<close> aggregate rows, is that of aggregate row \<open>i\<close> and metric
  \<open>j\<close>. The row is there whether the value is null or not.
\<close>

theorem melt_order:
  assumes "rectangular fr" and "distinct value_vars"
    and "set value_vars \<subseteq> fst ` set (value_cols fr)"
  shows "\<exists>out. melt fr value_vars = Inr out
    \<and> length out = length value_vars * length (id_col fr)
    \<and> (\<forall>j < length value_vars. \<forall>i < length (id_col fr).
          out ! (j * length (id_col fr) + i) =
            (id_col fr ! i, value_vars ! j, column fr (value_vars ! j) ! i))"
proof -
  let ?n = "length (id_col fr)"
  let ?block = "\<lambda>v. map (\<lambda>(k, x). (k, v, x)) (zip (id_col fr) (column fr v))"
  let ?out = "concat (map ?block value_vars)"
  have m: "melt fr value_vars = Inr ?out"
    using assms by (simp add: melt_def uniq_distinct)
  have lc: "length (column fr v) = ?n" if "v \<in> set value_vars" for v
    using that assms(3) by (intro length_column [OF assms(1)]) auto
  have len: "\<forall>xs \<in> set (map ?block value_vars). length xs = ?n"
    by (auto simp: lc)
  have "length ?out = length value_vars * ?n"
    using length_concat_block [OF len] by simp
  moreover have "?out ! (j * ?n + i) = (id_col fr ! i, value_vars ! j, column fr (value_vars ! j) ! i)"
    if "j < length value_vars" "i < ?n" for i j
  proof -
    from that assms(3) have v: "value_vars ! j \<in> fst ` set (value_cols fr)"
      using nth_mem by blast
    have "?out ! (j * ?n + i) = map ?block value_vars ! j ! i"
      using that by (intro nth_concat_block [OF len]) simp_all
    also have "\<dots> = (id_col fr ! i, value_vars ! j, column fr (value_vars ! j) ! i)"
      using that length_column [OF assms(1) v] by simp
    finally show ?thesis .
  qed
  ultimately show ?thesis using m by blast
qed

theorem melt_order_witness:
  "rectangular two_row_frame \<and> distinct [''Fat'', ''Sugar'']
   \<and> set [''Fat'', ''Sugar''] \<subseteq> fst ` set (value_cols two_row_frame)
   \<and> (\<exists>out. melt two_row_frame [''Fat'', ''Sugar''] = Inr out \<and> length out = 4
         \<and> out ! 1 = (''Row2'', ''Fat'', Some 2) \<and> out ! 3 = (''Row2'', ''Sugar'', None))"
proof -
  have a: "rectangular two_row_frame"
    by (simp add: rectangular_def two_row_frame_def)
  have b: "distinct [''Fat'', ''Sugar'']" by simp
  have c: "set [''Fat'', ''Sugar''] \<subseteq> fst ` set (value_cols two_row_frame)"
    by (simp add: two_row_frame_def)
  have n: "length (id_col two_row_frame) = 2" by (simp add: two_row_frame_def)
  from melt_order [OF a b c, unfolded n] obtain out where
    o: "melt two_row_frame [''Fat'', ''Sugar''] = Inr out
      \<and> length out = length [''Fat'', ''Sugar''] * 2
      \<and> (\<forall>j < length [''Fat'', ''Sugar'']. \<forall>i < 2.
            out ! (j * 2 + i) =
              (id_col two_row_frame ! i, [''Fat'', ''Sugar''] ! j,
               column two_row_frame ([''Fat'', ''Sugar''] ! j) ! i))" ..
  from o have o1: "melt two_row_frame [''Fat'', ''Sugar''] = Inr out" by (rule conjunct1)
  from o have o2: "length out = 4" by simp
  from o have all: "\<forall>j < length [''Fat'', ''Sugar'']. \<forall>i < 2.
            out ! (j * 2 + i) =
              (id_col two_row_frame ! i, [''Fat'', ''Sugar''] ! j,
               column two_row_frame ([''Fat'', ''Sugar''] ! j) ! i)"
    by (intro conjunct2 [OF conjunct2 [OF o]])
  have "out ! (0 * 2 + 1) =
      (id_col two_row_frame ! 1, [''Fat'', ''Sugar''] ! 0,
       column two_row_frame ([''Fat'', ''Sugar''] ! 0) ! 1)"
    by (rule all [rule_format]) simp_all
  then have o3: "out ! 1 = (''Row2'', ''Fat'', Some 2)"
    by (simp add: two_row_frame_def column_def)
  have "out ! (1 * 2 + 1) =
      (id_col two_row_frame ! 1, [''Fat'', ''Sugar''] ! 1,
       column two_row_frame ([''Fat'', ''Sugar''] ! 1) ! 1)"
    by (rule all [rule_format]) simp_all
  then have o4: "out ! 3 = (''Row2'', ''Sugar'', None)"
    by (simp add: two_row_frame_def column_def)
  from o1 o2 o3 o4
  have "\<exists>out. melt two_row_frame [''Fat'', ''Sugar''] = Inr out \<and> length out = 4
         \<and> out ! 1 = (''Row2'', ''Fat'', Some 2) \<and> out ! 3 = (''Row2'', ''Sugar'', None)"
    by (intro exI [of _ out] conjI)
  with a b c show ?thesis by (intro conjI)
qed

text \<open>
  The claim C2 fails on the code: two aggregate rows and the metrics Fat and Sugar
  give (Row1, Fat), (Row2, Fat), (Row1, Sugar), (Row2, Sugar).
\<close>

theorem melt_order_counterexample:
  "melt two_row_frame [''Fat'', ''Sugar''] =
     Inr [(''Row1'', ''Fat'', Some 1), (''Row2'', ''Fat'', Some 2),
          (''Row1'', ''Sugar'', Some 3), (''Row2'', ''Sugar'', None)]
   \<and> melt two_row_frame [''Fat'', ''Sugar''] \<noteq>
     Inr [(''Row1'', ''Fat'', Some 1), (''Row1'', ''Sugar'', Some 3),
          (''Row2'', ''Fat'', Some 2), (''Row2'', ''Sugar'', None)]"
  by (simp add: melt_def two_row_frame_def uniq_def column_def)

section \<open>Properties of the percentage by group\<close>

lemma map_of_keyed: "map_of (map (\<lambda>k. (k, f k)) ks) k = (if k \<in> set ks then Some (f k) else None)"
  by (induction ks) auto

lemma nova_key_eq:
  "map_option (Pair (country_name r)) (nova_group r) = Some (k, l)
     \<longleftrightarrow> country_name r = k \<and> nova_group r = Some l"
  by (cases "nova_group r") auto

lemma nova_sizes_keyed:
  "nova_sizes df =
     map (\<lambda>p. (p, length (filter (\<lambda>r. country_name r = fst p \<and> nova_group r = Some (snd p)) df)))
       (sort (remdups (dropna (map (\<lambda>r. map_option (Pair (country_name r)) (nova_group r)) df))))"
  by (simp add: nova_sizes_def groupby_def comp_def nova_key_eq [symmetric])

lemma nova_keys_set:
  "set (dropna (map (\<lambda>r. map_option (Pair (country_name r)) (nova_group r)) df)) =
     {(country_name r, l) | r l. r \<in> set df \<and> nova_group r = Some l}"
  unfolding set_dropna_map by auto

lemma country_totals_keyed:
  "country_totals df =
     map (\<lambda>k. (k, length (filter (\<lambda>r. country_name r = k) df))) (sort (remdups (map country_name df)))"
  by (simp add: country_totals_def groupby_def comp_def dropna_map_Some)

lemma map_zip_same: "map (\<lambda>(k, x). h k x) (zip ks (map g ks)) = map (\<lambda>k. h k (g k)) ks"
  by (induction ks) simp_all

lemma filled_count:
  "(case map_of (nova_sizes df) (k, l) of None \<Rightarrow> Some 0 | Some n \<Rightarrow> (Some \<circ> rat_of_nat) n) =
     Some (of_nat (length (filter (\<lambda>r. country_name r = k \<and> nova_group r = Some l) df)))"
proof (cases "(k, l) \<in> {(country_name r, l) | r l. r \<in> set df \<and> nova_group r = Some l}")
  case True
  then show ?thesis
    by (simp add: nova_sizes_keyed map_of_keyed nova_keys_set)
next
  case False
  then have "filter (\<lambda>r. country_name r = k \<and> nova_group r = Some l) df = []"
    by (auto simp: filter_empty_conv)
  with False show ?thesis
    by (simp add: nova_sizes_keyed map_of_keyed nova_keys_set)
qed

lemma nova_by_country_frame:
  "nova_by_country df =
     (let keys = dropna (map (\<lambda>r. map_option (Pair (country_name r)) (nova_group r)) df);
          rows = sort (remdups (map fst keys))
      in \<lparr>id_col = rows,
          value_cols =
            map (\<lambda>l. (l, map (\<lambda>k. percent_cell
                        (Some (of_nat (length (filter (\<lambda>r. country_name r = k \<and> nova_group r = Some l) df))))
                        (map_of (country_totals df) k)) rows))
              (sort (remdups (map snd keys)))\<rparr>)"
proof -
  have ids: "map (\<lambda>x. fst (fst x)) (nova_sizes df) =
      map fst (sort (remdups (dropna (map (\<lambda>r. map_option (Pair (country_name r)) (nova_group r)) df))))"
    by (simp add: nova_sizes_keyed comp_def)
  have labs: "map (\<lambda>x. snd (fst x)) (nova_sizes df) =
      map snd (sort (remdups (dropna (map (\<lambda>r. map_option (Pair (country_name r)) (nova_group r)) df))))"
    by (simp add: nova_sizes_keyed comp_def)
  have s1: "sort (remdups (map fst (sort (remdups ks)))) = sort (remdups (map fst ks))" for ks :: "(string \<times> rat) list"
    by (intro sorted_distinct_set_unique) simp_all
  have s2: "sort (remdups (map snd (sort (remdups ks)))) = sort (remdups (map snd ks))" for ks :: "(string \<times> rat) list"
    by (intro sorted_distinct_set_unique) simp_all
  show ?thesis
    by (simp add: nova_by_country_def percent_of_totals_def fillna_def unstack_def Let_def
        ids labs s1 s2 comp_def map_zip_same filled_count)
qed

lemma rectangular_nova_by_country: "rectangular (nova_by_country df)"
  by (simp add: rectangular_def nova_by_country_frame Let_def list_all_iff)

lemma map_of_country_totals:
  "map_of (country_totals df) k =
     (if k \<in> country_name ` set df then Some (length (filter (\<lambda>r. country_name r = k) df)) else None)"
  by (simp add: country_totals_keyed map_of_keyed)

lemma labels_nova_by_country:
  "map fst (value_cols (nova_by_country df)) =
     sort (remdups (map snd (dropna (map (\<lambda>r. map_option (Pair (country_name r)) (nova_group r)) df))))"
  by (simp add: nova_by_country_frame Let_def comp_def)

lemma id_col_nova_by_country:
  "id_col (nova_by_country df) =
     sort (remdups (map fst (dropna (map (\<lambda>r. map_option (Pair (country_name r)) (nova_group r)) df))))"
  by (simp add: nova_by_country_frame Let_def)

lemma length_filter_conj_le: "length (filter (\<lambda>x. P x \<and> Q x) xs) \<le> length (filter P xs)"
  by (induction xs) auto

lemma id_col_nova_by_country_set:
  "set (id_col (nova_by_country df)) = {country_name r | r. r \<in> set df \<and> nova_group r \<noteq> None}"
proof -
  have "fst ` {(country_name r, l) | r l. r \<in> set df \<and> nova_group r = Some l} =
      {country_name r | r. r \<in> set df \<and> nova_group r \<noteq> None}"
    by force
  then show ?thesis
    unfolding id_col_nova_by_country by (simp add: nova_keys_set)
qed

lemma labels_nova_by_country_set:
  "set (map fst (value_cols (nova_by_country df))) = {l. \<exists>r \<in> set df. nova_group r = Some l}"
  unfolding labels_nova_by_country by (auto simp: nova_keys_set image_iff)

lemma column_nova_by_country:
  assumes "l \<in> set (map fst (value_cols (nova_by_country df)))"
  shows "column (nova_by_country df) l =
     map (\<lambda>k. percent_cell
            (Some (of_nat (length (filter (\<lambda>r. country_name r = k \<and> nova_group r = Some l) df))))
            (map_of (country_totals df) k))
       (id_col (nova_by_country df))"
proof -
  let ?f = "\<lambda>l. map (\<lambda>k. percent_cell
            (Some (of_nat (length (filter (\<lambda>r. country_name r = k \<and> nova_group r = Some l) df))))
            (map_of (country_totals df) k))
       (id_col (nova_by_country df))"
  have vc: "value_cols (nova_by_country df) =
      map (\<lambda>l. (l, ?f l)) (map fst (value_cols (nova_by_country df)))"
    by (simp add: nova_by_country_frame Let_def comp_def)
  have m: "map_of (map (\<lambda>l. (l, ?f l)) (map fst (value_cols (nova_by_country df)))) l = Some (?f l)"
    using assms by (simp only: map_of_keyed if_True)
  have "map_of (value_cols (nova_by_country df)) l = Some (?f l)"
    by (subst vc) (rule m)
  then show ?thesis
    by (simp add: column_def)
qed

text \<open>
  C4 (as the code has it). The rows of \<^verbatim>\<open>nova_by_country\<close> are the countries that
  have a row with a NOVA group in the filtered frame, and its columns are the NOVA
  groups that some row of the filtered frame has, both ascending and each once. For
  every such country and every such NOVA group, the cell is the number of rows of the
  country in that NOVA group, divided by the number of all rows of the country, times
  100: a value between 0 and 100, and 0, not null, when the country has no row in that
  NOVA group. A country whose rows all lack a NOVA group has no row in the table, and a
  NOVA group that no row has is no column of it.
\<close>

theorem percentage_zero_fill:
  assumes "r \<in> set fdf" and "nova_group r \<noteq> None"
    and "r' \<in> set fdf" and "nova_group r' = Some l"
  shows "(let k = country_name r;
              c = length (filter (\<lambda>x. country_name x = k \<and> nova_group x = Some l) fdf);
              t = length (filter (\<lambda>x. country_name x = k) fdf);
              cell = map_of (zip (id_col (nova_by_country fdf)) (column (nova_by_country fdf) l)) k
          in 0 < t \<and> c \<le> t
             \<and> cell = Some (Some (rat_of_nat c / rat_of_nat t * 100))
             \<and> 0 \<le> rat_of_nat c / rat_of_nat t * 100
             \<and> rat_of_nat c / rat_of_nat t * 100 \<le> 100
             \<and> (c = 0 \<longrightarrow> cell = Some (Some 0)))
    \<and> sorted (id_col (nova_by_country fdf))
    \<and> distinct (id_col (nova_by_country fdf))
    \<and> set (id_col (nova_by_country fdf)) =
         {country_name x | x. x \<in> set fdf \<and> nova_group x \<noteq> None}
    \<and> sorted (map fst (value_cols (nova_by_country fdf)))
    \<and> distinct (map fst (value_cols (nova_by_country fdf)))
    \<and> set (map fst (value_cols (nova_by_country fdf))) = {l. \<exists>x \<in> set fdf. nova_group x = Some l}"
proof -
  let ?fr = "nova_by_country fdf"
  let ?k = "country_name r"
  let ?c = "length (filter (\<lambda>x. country_name x = ?k \<and> nova_group x = Some l) fdf)"
  let ?t = "length (filter (\<lambda>x. country_name x = ?k) fdf)"
  let ?cell = "map_of (zip (id_col ?fr) (column ?fr l)) ?k"
  have sd_ids: "sorted (id_col ?fr)" "distinct (id_col ?fr)"
    unfolding id_col_nova_by_country by simp_all
  have sd: "sorted (map fst (value_cols ?fr))" "distinct (map fst (value_cols ?fr))"
    unfolding labels_nova_by_country by simp_all
  from assms(3,4) have l: "l \<in> set (map fst (value_cols ?fr))"
    unfolding labels_nova_by_country_set by blast
  from assms(1,2) have k: "?k \<in> set (id_col ?fr)"
    unfolding id_col_nova_by_country_set by blast
  have member: "?k \<in> country_name ` set fdf"
    using assms(1) by (rule imageI)
  from assms(1) have "filter (\<lambda>x. country_name x = ?k) fdf \<noteq> []"
    by (auto simp: filter_empty_conv)
  then have t: "0 < ?t"
    by simp
  have c: "?c \<le> ?t"
    by (rule length_filter_conj_le)
  have "?cell = Some (percent_cell (Some (of_nat ?c)) (map_of (country_totals fdf) ?k))"
    using k by (simp add: column_nova_by_country [OF l] map_of_zip_map)
  also have "\<dots> = Some (Some (rat_of_nat ?c / rat_of_nat ?t * 100))"
    using t member by (simp add: percent_cell_def map_of_country_totals)
  finally have cell: "?cell = Some (Some (rat_of_nat ?c / rat_of_nat ?t * 100))" .
  have nonneg: "0 \<le> rat_of_nat ?c / rat_of_nat ?t * 100"
    by simp
  from c t have "rat_of_nat ?c / rat_of_nat ?t \<le> 1"
    by (simp add: divide_le_eq_1)
  then have "rat_of_nat ?c / rat_of_nat ?t * 100 \<le> 1 * 100"
    by (rule mult_right_mono) simp
  then have le100: "rat_of_nat ?c / rat_of_nat ?t * 100 \<le> 100"
    by (simp only: mult_1)
  have zero: "?cell = Some (Some 0)" if z: "?c = 0"
  proof -
    from cell have "?cell = Some (Some (rat_of_nat 0 / rat_of_nat ?t * 100))"
      by (simp only: z)
    then show ?thesis by simp
  qed
  show ?thesis
    unfolding Let_def
  proof (intro conjI impI)
    show "0 < ?t" by (rule t)
    show "?c \<le> ?t" by (rule c)
    show "?cell = Some (Some (rat_of_nat ?c / rat_of_nat ?t * 100))" by (rule cell)
    show "0 \<le> rat_of_nat ?c / rat_of_nat ?t * 100" by (rule nonneg)
    show "rat_of_nat ?c / rat_of_nat ?t * 100 \<le> 100" by (rule le100)
    show "?cell = Some (Some 0)" if "?c = 0" using that by (rule zero)
    show "sorted (id_col ?fr)" by (rule sd_ids)
    show "distinct (id_col ?fr)" by (rule sd_ids)
    show "set (id_col ?fr) = {country_name x | x. x \<in> set fdf \<and> nova_group x \<noteq> None}"
      by (rule id_col_nova_by_country_set)
    show "sorted (map fst (value_cols ?fr))" by (rule sd)
    show "distinct (map fst (value_cols ?fr))" by (rule sd)
    show "set (map fst (value_cols ?fr)) = {l. \<exists>x \<in> set fdf. nova_group x = Some l}"
      by (rule labels_nova_by_country_set)
  qed
qed

theorem percentage_zero_fill_witness:
  "de_product 1 \<in> set de_fr_df \<and> nova_group (de_product 1) \<noteq> None
   \<and> (de_product 2)\<lparr>country_code := ''fr''\<rparr> \<in> set de_fr_df
   \<and> nova_group ((de_product 2)\<lparr>country_code := ''fr''\<rparr>) = Some 2
   \<and> country_name (de_product 1) = ''Germany''
   \<and> length (filter (\<lambda>x. country_name x = ''Germany'' \<and> nova_group x = Some 2) de_fr_df) = 0
   \<and> map_of (zip (id_col (nova_by_country de_fr_df)) (column (nova_by_country de_fr_df) 2))
        ''Germany'' = Some (Some 0)"
proof -
  have a: "de_product 1 \<in> set de_fr_df"
    by (simp add: de_fr_df_def de_df_def)
  have b: "nova_group (de_product 1) \<noteq> None"
    by (simp add: de_product_def)
  have c: "(de_product 2)\<lparr>country_code := ''fr''\<rparr> \<in> set de_fr_df"
    by (simp add: de_fr_df_def)
  have d: "nova_group ((de_product 2)\<lparr>country_code := ''fr''\<rparr>) = Some 2"
    by (simp add: de_product_def)
  have k: "country_name (de_product 1) = ''Germany''"
    by code_simp
  have z: "length (filter (\<lambda>x. country_name x = ''Germany'' \<and> nova_group x = Some 2) de_fr_df) = 0"
    by code_simp
  from percentage_zero_fill [OF a b c d, THEN conjunct1, unfolded Let_def k]
  have "length (filter (\<lambda>x. country_name x = ''Germany'' \<and> nova_group x = Some 2) de_fr_df) = 0
          \<longrightarrow> map_of (zip (id_col (nova_by_country de_fr_df)) (column (nova_by_country de_fr_df) 2))
                ''Germany'' = Some (Some 0)"
    by (elim conjE)
  then have e: "map_of (zip (id_col (nova_by_country de_fr_df)) (column (nova_by_country de_fr_df) 2))
        ''Germany'' = Some (Some 0)"
    using z by (rule mp)
  from a b c d k z e show ?thesis by (intro conjI)
qed

text \<open>
  The claim C4 fails on the code in two ways. Three German products of the NOVA groups
  1, 1 and 3 give the columns 1 and 3 only: the chart data has no row, and so no 0, for
  the groups 2 and 4. A German product without a NOVA group beside a French product of
  group 2 gives a table with France only: Germany is counted in \<^verbatim>\<open>country_totals\<close>
  and has no row of group 2, and gets no 0 for it.
\<close>

theorem percentage_zero_fill_counterexample:
  "processing_filtered_df de_df [''de''] [''A''] = de_df
   \<and> nova_by_country de_df =
       \<lparr>id_col = [''Germany''], value_cols = [(1, [Some (200 / 3)]), (3, [Some (100 / 3)])]\<rparr>
   \<and> update_processing_by_country_chart de_df [''de''] [''A''] =
       Inr [(''Germany'', 1, Some (200 / 3)), (''Germany'', 3, Some (100 / 3))]
   \<and> processing_filtered_df gap_df [''de'', ''fr''] [''A''] = gap_df
   \<and> country_totals gap_df = [(''France'', 1), (''Germany'', 1)]
   \<and> nova_by_country gap_df = \<lparr>id_col = [''France''], value_cols = [(2, [Some 100])]\<rparr>
   \<and> update_processing_by_country_chart gap_df [''de'', ''fr''] [''A''] =
       Inr [(''France'', 2, Some 100)]"
  by code_simp

section \<open>Properties of the mockup variant\<close>

text \<open>
  C10. The two chart callbacks of the mockup variant return the same hardcoded chart
  data for every two tuples of selection inputs.
\<close>

theorem mockup_independent:
  "update_nutrition_grade_chart_mockup cs cat nr = update_nutrition_grade_chart_mockup cs' cat' nr'
  \<and> update_macronutrient_chart_mockup cs cat nr = update_macronutrient_chart_mockup cs' cat' nr'
  \<and> update_nutrition_grade_chart_mockup cs cat nr =
      Inr \<lparr>trace_x = [Num 32, Num 45, Num 28, Num 18, Num 7],
           trace_y = [Str ''A'', Str ''B'', Str ''C'', Str ''D'', Str ''E''],
           orientation = Some ''h'',
           marker_color = [''#5D6CDF'', ''#46C9E5'', ''#5ECDA0'', ''#FFC857'', ''#E15759'']\<rparr>
  \<and> update_macronutrient_chart_mockup cs cat nr =
      Inr \<lparr>trace_x = [Str ''Protein'', Str ''Carbs'', Str ''Fat'', Str ''Fiber'', Str ''Sugar'', Str ''Salt''],
           trace_y = [Num 12, Num 38, Num 18, Num 7, Num 16, Num 9],
           orientation = None,
           marker_color = [''#46C9E5'', ''#5D6CDF'', ''#FFC857'', ''#5ECDA0'', ''#E15759'', ''#FF9D5C'']\<rparr>"
  by (simp add: update_nutrition_grade_chart_mockup_def update_macronutrient_chart_mockup_def
      subscript_def colors_def)

end
